theory Spec2Isabelle
  imports Main "HOL-Library.Word"
begin

section \<open>The consensus configuration (config.go)\<close>

subsection \<open>Values of the standard library that the configuration holds\<close>

type_synonym byte = "8 word"

text \<open>
  A Go byte slice. \<open>None\<close> is the nil slice; \<open>Some []\<close> is an empty slice that is not nil.
  The two differ under the comparison with nil that \<open>VerifyConfig\<close> makes.
\<close>

type_synonym bytes = "byte list option"

text \<open>
  A \<open>time.Time\<close>, as the instant it denotes: whole seconds since January 1 of year 1 (UTC)
  and the nanoseconds within that second. \<open>IsZero\<close> holds of exactly that first instant,
  which is also the zero value of the type.
\<close>

record Time =
  sec :: int
  nsec :: nat

definition IsZero :: "Time \<Rightarrow> bool" where
  "IsZero t = (sec t = 0 \<and> nsec t = 0)"

text \<open>
  Keys of \<open>crypto/ecdsa\<close>: a public key is a curve point, a private key adds the secret
  scalar. The curve itself plays no part in what follows and is left out. The configuration
  and the peer hold keys by pointer, hence \<open>option\<close> in their fields.
\<close>

record ecdsa_PublicKey =
  point_X :: int
  point_Y :: int

record ecdsa_PrivateKey =
  public_part :: ecdsa_PublicKey
  secret_D :: int

subsection \<open>Declarations of the consensus package that config.go refers to\<close>

text \<open>
  Modelled from the spec: the type \<open>State\<close>, declared outside config.go. The spec calls it
  an opaque byte sequence, and the command-line client assigns a byte slice to
  \<open>CurrentState\<close> and compares states with \<open>bytes.Compare\<close>.
\<close>

type_synonym State = bytes

text \<open>
  Modelled from the spec: the type \<open>StateHash\<close>, declared outside config.go; the spec calls
  it a fixed-size digest.
\<close>

type_synonym StateHash = "byte list"

text \<open>
  Modelled from the spec: the error values that \<open>VerifyConfig\<close> returns, declared outside
  config.go. The spec asks for a specific error for each missing or invalid field, so
  each name is a value of its own.
\<close>

datatype error =
    ErrConfigEpoch
  | ErrConfigStateNil
  | ErrConfigLess
  | ErrConfigValidateState
  | ErrConfigPrivateKey
  | ErrConfigParticipants

subsection \<open>Config and VerifyConfig\<close>

definition ConfigMinimumParticipants :: nat where
  "ConfigMinimumParticipants = 4"

text \<open>
  The struct \<open>Config\<close>, field by field. A field of function type is nil or a function, a
  pointer field is nil or a key; \<open>Participants\<close> is a slice of pointers, of which
  \<open>VerifyConfig\<close> reads the length only (a nil slice has length 0, as \<open>[]\<close> has).
\<close>

record Config =
  Epoch :: Time
  CurrentHeight :: "64 word"
  CurrentState :: State
  PrivateKey :: "ecdsa_PrivateKey option"
  Participants :: "ecdsa_PublicKey option list"
  StateCompare :: "(State \<Rightarrow> State \<Rightarrow> int) option"
  StateValidate :: "(State \<Rightarrow> bool) option"
  StateHash :: "(State \<Rightarrow> StateHash) option"

text \<open>
  \<open>VerifyConfig\<close> receives a pointer to the configuration, so it could write to it. The
  embedding passes the configuration through: the first component of the result is the
  configuration the pointer refers to after the call, the second is the returned error
  (\<open>None\<close> for nil). The six checks stand in the order of the source.
\<close>

definition VerifyConfig :: "Config \<Rightarrow> Config \<times> error option" where
  "VerifyConfig c =
    (if IsZero (Epoch c) then (c, Some ErrConfigEpoch)
     else if CurrentState c = None then (c, Some ErrConfigStateNil)
     else if StateCompare c = None then (c, Some ErrConfigLess)
     else if StateValidate c = None then (c, Some ErrConfigValidateState)
     else if PrivateKey c = None then (c, Some ErrConfigPrivateKey)
     else if length (Participants c) < ConfigMinimumParticipants
       then (c, Some ErrConfigParticipants)
     else (c, None))"

text \<open>
  The call through the pointer: reading \<open>c.Epoch\<close> through a nil pointer panics, which is
  the result \<open>None\<close> here.
\<close>

definition VerifyConfig_ptr :: "Config option \<Rightarrow> (Config \<times> error option) option" where
  "VerifyConfig_ptr p = (case p of None \<Rightarrow> None | Some c \<Rightarrow> Some (VerifyConfig c))"

text \<open>
  The checks as the list the reading "first failing check wins" speaks of: each entry
  pairs "this field is missing or invalid" with the error that reports it, in the order
  Epoch, CurrentState, StateCompare, StateValidate, PrivateKey, Participants.
\<close>

definition config_checks :: "Config \<Rightarrow> (bool \<times> error) list" where
  "config_checks c =
    [(IsZero (Epoch c), ErrConfigEpoch),
     (CurrentState c = None, ErrConfigStateNil),
     (StateCompare c = None, ErrConfigLess),
     (StateValidate c = None, ErrConfigValidateState),
     (PrivateKey c = None, ErrConfigPrivateKey),
     (length (Participants c) < 4, ErrConfigParticipants)]"

subsection \<open>Concrete configurations\<close>

definition sample_key :: ecdsa_PrivateKey where
  "sample_key = \<lparr>public_part = \<lparr>point_X = 5, point_Y = 7\<rparr>, secret_D = 11\<rparr>"

text \<open>
  The configuration as the command-line client fills it in for a quorum of \<open>n\<close> keys: the
  epoch is the current time, the state comes from the quorum file, the validator accepts
  every state, and \<open>StateHash\<close> is never assigned. (The comparator here is a stand-in;
  only its presence matters to \<open>VerifyConfig\<close>.)
\<close>

definition client_config :: "nat \<Rightarrow> Config" where
  "client_config n =
    \<lparr>Epoch = \<lparr>sec = 63900000000, nsec = 250\<rparr>,
     CurrentHeight = 0,
     CurrentState = Some [1, 2, 3],
     PrivateKey = Some sample_key,
     Participants = replicate n (Some (public_part sample_key)),
     StateCompare = Some (\<lambda>a b. 0),
     StateValidate = Some (\<lambda>s. True),
     StateHash = None\<rparr>"

text \<open>The zero value of \<open>Config\<close>: what \<open>new(Config)\<close> holds before any assignment.\<close>

definition zero_config :: Config where
  "zero_config =
    \<lparr>Epoch = \<lparr>sec = 0, nsec = 0\<rparr>,
     CurrentHeight = 0,
     CurrentState = None,
     PrivateKey = None,
     Participants = [],
     StateCompare = None,
     StateValidate = None,
     StateHash = None\<rparr>"

section \<open>The TCP peer of the agent (package agent)\<close>

subsection \<open>Channels of empty structs\<close>

text \<open>
  Both channels of a peer carry values of type \<open>struct{}\<close>, so the state of a channel is
  its capacity and the number of values in its buffer. The peer never closes them.
\<close>

record chan =
  chan_cap :: nat
  chan_len :: nat

definition make_chan :: "nat \<Rightarrow> chan" where
  "make_chan n = \<lparr>chan_cap = n, chan_len = 0\<rparr>"

text \<open>
  An attempt to send while no receiver is waiting at the channel: it goes through when the
  buffer has room and gives the channel with one more value; \<open>None\<close> means that the send
  cannot proceed now, so a plain send statement would block.
\<close>

definition chan_try_send :: "chan \<Rightarrow> chan option" where
  "chan_try_send ch =
    (if chan_len ch < chan_cap ch then Some (ch\<lparr>chan_len := Suc (chan_len ch)\<rparr>) else None)"

subsection \<open>TCPPeer and its methods\<close>

text \<open>
  The struct \<open>TCPPeer\<close>. The connection is whatever value the caller passed; \<open>pending\<close> is a
  slice of byte slices that the code only appends to, so nil and empty are both \<open>[]\<close>. The
  embedded mutex makes each method that takes it one atomic step on these fields, and no
  method keeps it beyond its return; the methods below are those steps.
\<close>

record 'conn TCPPeer =
  conn :: 'conn
  publicKey :: "ecdsa_PublicKey option"
  pending :: "bytes list"
  chPending :: chan
  die :: chan

definition NewTCPPeer :: "'conn \<Rightarrow> 'conn TCPPeer" where
  "NewTCPPeer c =
    \<lparr>conn = c, publicKey = None, pending = [], chPending = make_chan 1, die = make_chan 0\<rparr>"

definition GetPublicKey :: "'conn TCPPeer \<Rightarrow> ecdsa_PublicKey option" where
  "GetPublicKey p = publicKey p"

text \<open>
  \<open>notifyPending\<close> is a select with one send case and an empty default: the send is taken
  when it can proceed, and otherwise the default returns at once with the peer as it was.
\<close>

definition notifyPending :: "'conn TCPPeer \<Rightarrow> 'conn TCPPeer" where
  "notifyPending p =
    (case chan_try_send (chPending p) of
       Some ch \<Rightarrow> p\<lparr>chPending := ch\<rparr>
     | None \<Rightarrow> p)"

text \<open>\<open>Send\<close> gives the peer after the call and the returned error (\<open>None\<close> for nil).\<close>

definition Send :: "'conn TCPPeer \<Rightarrow> bytes \<Rightarrow> 'conn TCPPeer \<times> error option" where
  "Send p out = (notifyPending (p\<lparr>pending := pending p @ [out]\<rparr>), None)"

text \<open>A sequence of \<open>Send\<close> calls on one peer, in the order of the list, with nothing else
  touching the peer in between.\<close>

fun send_all :: "'conn TCPPeer \<Rightarrow> bytes list \<Rightarrow> 'conn TCPPeer" where
  "send_all p [] = p"
| "send_all p (m # ms) = send_all (fst (Send p m)) ms"

section \<open>Properties of VerifyConfig\<close>

lemma VerifyConfig_error:
  "snd (VerifyConfig c) =
    (if IsZero (Epoch c) then Some ErrConfigEpoch
     else if CurrentState c = None then Some ErrConfigStateNil
     else if StateCompare c = None then Some ErrConfigLess
     else if StateValidate c = None then Some ErrConfigValidateState
     else if PrivateKey c = None then Some ErrConfigPrivateKey
     else if length (Participants c) < 4 then Some ErrConfigParticipants
     else None)"
  by (simp add: VerifyConfig_def ConfigMinimumParticipants_def)

lemma VerifyConfig_frame: "fst (VerifyConfig c) = c"
  by (simp add: VerifyConfig_def)

lemma client_config_fields:
  "\<not> IsZero (Epoch (client_config n))"
  "CurrentState (client_config n) \<noteq> None"
  "StateCompare (client_config n) \<noteq> None"
  "StateValidate (client_config n) \<noteq> None"
  "PrivateKey (client_config n) \<noteq> None"
  "StateHash (client_config n) = None"
  "length (Participants (client_config n)) = n"
  by (simp_all add: client_config_def IsZero_def)

lemma zero_config_fields:
  "IsZero (Epoch zero_config)"
  "CurrentState zero_config = None"
  "StateCompare zero_config = None"
  "StateValidate zero_config = None"
  "PrivateKey zero_config = None"
  "Participants zero_config = []"
  by (simp_all add: zero_config_def IsZero_def)

lemma find_first_index:
  "i < length xs \<Longrightarrow> P (xs ! i) \<Longrightarrow> \<forall>j<i. \<not> P (xs ! j) \<Longrightarrow> find P xs = Some (xs ! i)"
proof (induction xs arbitrary: i)
  case Nil
  then show ?case by simp
next
  case (Cons x xs)
  show ?case
  proof (cases i)
    case 0
    with Cons.prems show ?thesis by simp
  next
    case (Suc k)
    from Cons.prems Suc have "\<not> P x" by auto
    moreover from Cons.prems Suc have "\<forall>j<k. \<not> P (xs ! j)" by auto
    moreover from Cons.prems Suc have "k < length xs" "P (xs ! k)" by auto
    ultimately show ?thesis using Cons.IH [of k] Suc by simp
  qed
qed

lemma VerifyConfig_find:
  "snd (VerifyConfig c) = map_option snd (find fst (config_checks c))"
  by (simp add: VerifyConfig_error config_checks_def)

lemma IsZero_zero: "IsZero \<lparr>sec = 0, nsec = 0\<rparr>"
  by (simp add: IsZero_def)

text \<open>
  Claim C1, as stated: a configuration without a hasher, in order otherwise and with at
  least 4 participants, is rejected. The code does not do so: the configuration that the
  command-line client builds for a quorum of four has no hasher, meets every other
  condition, and \<open>VerifyConfig\<close> returns nil for it.
\<close>

theorem VerifyConfig_nil_hasher_counterexample:
  "StateHash (client_config 4) = None
   \<and> \<not> IsZero (Epoch (client_config 4))
   \<and> CurrentState (client_config 4) \<noteq> None
   \<and> StateCompare (client_config 4) \<noteq> None
   \<and> StateValidate (client_config 4) \<noteq> None
   \<and> PrivateKey (client_config 4) \<noteq> None
   \<and> 4 \<le> length (Participants (client_config 4))
   \<and> snd (VerifyConfig (client_config 4)) = None"
  by (simp add: VerifyConfig_error client_config_fields)

text \<open>
  Claim C1, amended. \<open>StateHash\<close> is not among the fields that \<open>VerifyConfig\<close> checks: a
  configuration whose hasher is nil, whose epoch is set, whose initial state, comparator,
  validator and private key are present and which has at least 4 participants is
  accepted (the result is nil); and for every configuration, in order or not, the result
  is the same whatever the \<open>StateHash\<close> field holds.
\<close>

theorem VerifyConfig_nil_hasher_accepted:
  "(StateHash c = None \<and> \<not> IsZero (Epoch c) \<and> CurrentState c \<noteq> None
      \<and> StateCompare c \<noteq> None \<and> StateValidate c \<noteq> None \<and> PrivateKey c \<noteq> None
      \<and> 4 \<le> length (Participants c)
      \<longrightarrow> snd (VerifyConfig c) = None)
   \<and> snd (VerifyConfig (d\<lparr>StateHash := h\<rparr>)) = snd (VerifyConfig d)"
  by (simp add: VerifyConfig_error)

theorem VerifyConfig_nil_hasher_accepted_witness:
  "snd (VerifyConfig (client_config 5)) = None
   \<and> snd (VerifyConfig ((client_config 5)\<lparr>StateHash := Some (\<lambda>s. [])\<rparr>)) = None
   \<and> snd (VerifyConfig ((client_config 3)\<lparr>StateHash := Some (\<lambda>s. [])\<rparr>))
       = snd (VerifyConfig (client_config 3))
   \<and> snd (VerifyConfig (zero_config\<lparr>StateHash := Some (\<lambda>s. [])\<rparr>))
       = snd (VerifyConfig zero_config)"
  using VerifyConfig_nil_hasher_accepted
      [where c = "client_config 5" and d = "client_config 5" and h = "Some (\<lambda>s. [])"]
    VerifyConfig_nil_hasher_accepted
      [where c = "client_config 5" and d = "client_config 3" and h = "Some (\<lambda>s. [])"]
    VerifyConfig_nil_hasher_accepted
      [where c = "client_config 5" and d = zero_config and h = "Some (\<lambda>s. [])"]
  by (simp add: client_config_fields)

text \<open>
  Claim C2. For a configuration whose epoch is set and whose initial state, comparator,
  validator and private key are present, \<open>VerifyConfig\<close> returns an error exactly when
  there are fewer than 4 participants, and the error is then \<open>ErrConfigParticipants\<close>;
  with exactly 3 participants it fails with that error, with exactly 4 it returns nil.
\<close>

theorem VerifyConfig_participants:
  assumes "\<not> IsZero (Epoch c)"
    and "CurrentState c \<noteq> None"
    and "StateCompare c \<noteq> None"
    and "StateValidate c \<noteq> None"
    and "PrivateKey c \<noteq> None"
  shows "(snd (VerifyConfig c) \<noteq> None) = (length (Participants c) < 4)
    \<and> (length (Participants c) < 4 \<longrightarrow> snd (VerifyConfig c) = Some ErrConfigParticipants)
    \<and> (length (Participants c) = 3 \<longrightarrow> snd (VerifyConfig c) = Some ErrConfigParticipants)
    \<and> (length (Participants c) = 4 \<longrightarrow> snd (VerifyConfig c) = None)"
  using assms by (simp add: VerifyConfig_error)

theorem VerifyConfig_participants_witness:
  "snd (VerifyConfig (client_config 3)) = Some ErrConfigParticipants
   \<and> snd (VerifyConfig (client_config 4)) = None
   \<and> snd (VerifyConfig (client_config 0)) = Some ErrConfigParticipants
   \<and> snd (VerifyConfig (client_config 7)) = None"
  using VerifyConfig_participants [of "client_config 3"]
    VerifyConfig_participants [of "client_config 4"]
    VerifyConfig_participants [of "client_config 0"]
    VerifyConfig_participants [of "client_config 7"]
  by (simp add: client_config_fields)

text \<open>
  Claim C3. Each field has an error of its own: a field that is missing or invalid while
  the fields checked before it are in order (in particular when it is the only one
  at fault) yields exactly its error: a zero epoch \<open>ErrConfigEpoch\<close>, a nil state
  \<open>ErrConfigStateNil\<close>, a nil comparator \<open>ErrConfigLess\<close>, a nil validator
  \<open>ErrConfigValidateState\<close>, a nil private key \<open>ErrConfigPrivateKey\<close>, fewer than 4
  participants \<open>ErrConfigParticipants\<close>. When all six conditions hold the result is nil.
  The six errors are pairwise different.
\<close>

theorem VerifyConfig_specific_errors:
  "(IsZero (Epoch c) \<longrightarrow> snd (VerifyConfig c) = Some ErrConfigEpoch)
   \<and> (\<not> IsZero (Epoch c) \<and> CurrentState c = None
        \<longrightarrow> snd (VerifyConfig c) = Some ErrConfigStateNil)
   \<and> (\<not> IsZero (Epoch c) \<and> CurrentState c \<noteq> None \<and> StateCompare c = None
        \<longrightarrow> snd (VerifyConfig c) = Some ErrConfigLess)
   \<and> (\<not> IsZero (Epoch c) \<and> CurrentState c \<noteq> None \<and> StateCompare c \<noteq> None
        \<and> StateValidate c = None
        \<longrightarrow> snd (VerifyConfig c) = Some ErrConfigValidateState)
   \<and> (\<not> IsZero (Epoch c) \<and> CurrentState c \<noteq> None \<and> StateCompare c \<noteq> None
        \<and> StateValidate c \<noteq> None \<and> PrivateKey c = None
        \<longrightarrow> snd (VerifyConfig c) = Some ErrConfigPrivateKey)
   \<and> (\<not> IsZero (Epoch c) \<and> CurrentState c \<noteq> None \<and> StateCompare c \<noteq> None
        \<and> StateValidate c \<noteq> None \<and> PrivateKey c \<noteq> None \<and> length (Participants c) < 4
        \<longrightarrow> snd (VerifyConfig c) = Some ErrConfigParticipants)
   \<and> (\<not> IsZero (Epoch c) \<and> CurrentState c \<noteq> None \<and> StateCompare c \<noteq> None
        \<and> StateValidate c \<noteq> None \<and> PrivateKey c \<noteq> None \<and> 4 \<le> length (Participants c)
        \<longrightarrow> snd (VerifyConfig c) = None)
   \<and> distinct [ErrConfigEpoch, ErrConfigStateNil, ErrConfigLess, ErrConfigValidateState,
        ErrConfigPrivateKey, ErrConfigParticipants]"
  by (simp add: VerifyConfig_error)

theorem VerifyConfig_specific_errors_witness:
  "snd (VerifyConfig ((client_config 4)\<lparr>Epoch := \<lparr>sec = 0, nsec = 0\<rparr>\<rparr>)) = Some ErrConfigEpoch
   \<and> snd (VerifyConfig ((client_config 4)\<lparr>CurrentState := None\<rparr>)) = Some ErrConfigStateNil
   \<and> snd (VerifyConfig ((client_config 4)\<lparr>StateCompare := None\<rparr>)) = Some ErrConfigLess
   \<and> snd (VerifyConfig ((client_config 4)\<lparr>StateValidate := None\<rparr>)) = Some ErrConfigValidateState
   \<and> snd (VerifyConfig ((client_config 4)\<lparr>PrivateKey := None\<rparr>)) = Some ErrConfigPrivateKey
   \<and> snd (VerifyConfig (client_config 1)) = Some ErrConfigParticipants
   \<and> snd (VerifyConfig (client_config 4)) = None"
  using VerifyConfig_specific_errors [of "(client_config 4)\<lparr>Epoch := \<lparr>sec = 0, nsec = 0\<rparr>\<rparr>"]
    VerifyConfig_specific_errors [of "(client_config 4)\<lparr>CurrentState := None\<rparr>"]
    VerifyConfig_specific_errors [of "(client_config 4)\<lparr>StateCompare := None\<rparr>"]
    VerifyConfig_specific_errors [of "(client_config 4)\<lparr>StateValidate := None\<rparr>"]
    VerifyConfig_specific_errors [of "(client_config 4)\<lparr>PrivateKey := None\<rparr>"]
    VerifyConfig_specific_errors [of "client_config 1"]
    VerifyConfig_specific_errors [of "client_config 4"]
  by (simp add: client_config_fields IsZero_zero)

text \<open>
  Claim C8. \<open>VerifyConfig\<close> returns the error of the first failing check in the order
  Epoch, CurrentState, StateCompare, StateValidate, PrivateKey, Participants: its result
  is the error of the first entry of \<open>config_checks\<close> that fails (nil when none does), so
  whenever check \<open>i\<close> fails and no check before it does, the error of check \<open>i\<close> comes
  back, whatever the later fields hold. For example a zero epoch together with a nil private
  key yields \<open>ErrConfigEpoch\<close>, not \<open>ErrConfigPrivateKey\<close>.
\<close>

theorem VerifyConfig_first_failing:
  "snd (VerifyConfig c) = map_option snd (find fst (config_checks c))
   \<and> (\<forall>i < length (config_checks c).
        fst (config_checks c ! i) \<and> (\<forall>j<i. \<not> fst (config_checks c ! j))
        \<longrightarrow> snd (VerifyConfig c) = Some (snd (config_checks c ! i)))
   \<and> (IsZero (Epoch c) \<and> PrivateKey c = None
        \<longrightarrow> snd (VerifyConfig c) = Some ErrConfigEpoch
          \<and> snd (VerifyConfig c) \<noteq> Some ErrConfigPrivateKey)"
proof (intro conjI allI impI)
  show "snd (VerifyConfig c) = map_option snd (find fst (config_checks c))"
    by (rule VerifyConfig_find)
next
  fix i
  assume "i < length (config_checks c)"
    and "fst (config_checks c ! i) \<and> (\<forall>j<i. \<not> fst (config_checks c ! j))"
  then have "find fst (config_checks c) = Some (config_checks c ! i)"
    by (intro find_first_index) auto
  then show "snd (VerifyConfig c) = Some (snd (config_checks c ! i))"
    by (simp add: VerifyConfig_find)
next
  assume "IsZero (Epoch c) \<and> PrivateKey c = None"
  then show "snd (VerifyConfig c) = Some ErrConfigEpoch" by (simp add: VerifyConfig_error)
  then show "snd (VerifyConfig c) \<noteq> Some ErrConfigPrivateKey" by simp
qed

theorem VerifyConfig_first_failing_witness:
  "snd (VerifyConfig zero_config) = Some ErrConfigEpoch
   \<and> snd (VerifyConfig ((client_config 2)\<lparr>StateValidate := None\<rparr>)) = Some ErrConfigValidateState"
  using VerifyConfig_first_failing [of zero_config, THEN conjunct2, THEN conjunct1, rule_format, of 0]
    VerifyConfig_first_failing [of zero_config, THEN conjunct2, THEN conjunct2]
    VerifyConfig_first_failing [of "(client_config 2)\<lparr>StateValidate := None\<rparr>",
      THEN conjunct2, THEN conjunct1, rule_format, of 3]
  by (simp add: config_checks_def zero_config_fields client_config_fields
      less_Suc_eq numeral_3_eq_3)

text \<open>
  Claim C10. \<open>VerifyConfig\<close> only reads: the configuration after the call is the one
  before it, field by field, and a second call on it returns what the first returned. So
  the call through a pointer to the configuration returns the error and leaves the
  configuration behind the pointer as it was.
\<close>

theorem VerifyConfig_read_only:
  "fst (VerifyConfig c) = c
   \<and> Epoch (fst (VerifyConfig c)) = Epoch c
   \<and> CurrentHeight (fst (VerifyConfig c)) = CurrentHeight c
   \<and> CurrentState (fst (VerifyConfig c)) = CurrentState c
   \<and> PrivateKey (fst (VerifyConfig c)) = PrivateKey c
   \<and> Participants (fst (VerifyConfig c)) = Participants c
   \<and> StateCompare (fst (VerifyConfig c)) = StateCompare c
   \<and> StateValidate (fst (VerifyConfig c)) = StateValidate c
   \<and> StateHash (fst (VerifyConfig c)) = StateHash c
   \<and> snd (VerifyConfig (fst (VerifyConfig c))) = snd (VerifyConfig c)
   \<and> VerifyConfig_ptr (Some c) = Some (c, snd (VerifyConfig c))"
  by (simp add: VerifyConfig_frame VerifyConfig_ptr_def prod_eq_iff)

section \<open>Properties of the peer\<close>

lemma notifyPending_fields:
  "conn (notifyPending p) = conn p"
  "publicKey (notifyPending p) = publicKey p"
  "pending (notifyPending p) = pending p"
  "die (notifyPending p) = die p"
  "chan_cap (chPending (notifyPending p)) = chan_cap (chPending p)"
  by (simp_all add: notifyPending_def chan_try_send_def)


lemma Send_fields:
  "snd (Send p out) = None"
  "pending (fst (Send p out)) = pending p @ [out]"
  "conn (fst (Send p out)) = conn p"
  "publicKey (fst (Send p out)) = publicKey p"
  "die (fst (Send p out)) = die p"
  "chan_cap (chPending (fst (Send p out))) = chan_cap (chPending p)"
  by (simp_all add: Send_def notifyPending_fields)

lemma send_all_pending: "pending (send_all p ms) = pending p @ ms"
  by (induction ms arbitrary: p) (simp_all add: Send_fields)

lemma send_all_publicKey: "publicKey (send_all p ms) = publicKey p"
  by (induction ms arbitrary: p) (simp_all add: Send_fields)

lemma send_all_append: "send_all p (ms @ ns) = send_all (send_all p ms) ns"
  by (induction ms arbitrary: p) simp_all




lemma NewTCPPeer_fields:
  "conn (NewTCPPeer c) = c"
  "publicKey (NewTCPPeer c) = None"
  "pending (NewTCPPeer c) = []"
  "chan_cap (chPending (NewTCPPeer c)) = 1"
  "chan_len (chPending (NewTCPPeer c)) = 0"
  "chan_cap (die (NewTCPPeer c)) = 0"
  by (simp_all add: NewTCPPeer_def make_chan_def)

text \<open>
  Claim C4, as stated: some fixed bound \<open>B\<close> limits the length of \<open>pending\<close> over all peers
  and all sequences of \<open>Send\<close> calls. There is no such bound, already for a fresh peer:
  whatever \<open>B\<close> is, \<open>B + 1\<close> calls leave \<open>B + 1\<close> messages pending.
\<close>

theorem pending_unbounded_counterexample:
  "\<not> (\<exists>B. \<forall>ms. length (pending (send_all (NewTCPPeer ()) ms)) \<le> B)"
proof
  assume "\<exists>B. \<forall>ms. length (pending (send_all (NewTCPPeer ()) ms)) \<le> B"
  then obtain B where b: "\<forall>ms. length (pending (send_all (NewTCPPeer ()) ms)) \<le> B" ..
  from b have "length (pending (send_all (NewTCPPeer ()) (replicate (Suc B) None))) \<le> B" ..
  then have "length (pending (NewTCPPeer ()) @ replicate (Suc B) None) \<le> B"
    by (simp only: send_all_pending)
  then show False by simp
qed

text \<open>
  Claim C4, amended. The pending queue has no bound and no overflow policy: every \<open>Send\<close>
  appends its message, so with no consumer the queue after \<open>n\<close> calls is \<open>n\<close> entries longer
  and holds every message, none coalesced or dropped; and \<open>Send\<close> does not wait for room,
  it returns nil each time.
\<close>

theorem pending_grows_with_every_Send:
  "length (pending (fst (Send p out))) = Suc (length (pending p))
   \<and> length (pending (send_all p ms)) = length (pending p) + length ms
   \<and> pending (send_all p ms) = pending p @ ms
   \<and> snd (Send p out) = None"
  by (simp add: Send_fields send_all_pending)

text \<open>
  Claim C5. For every peer and every byte slice, \<open>Send\<close> appends the message to the peer's
  pending queue, where it is the last entry, and returns a nil error.
\<close>

theorem Send_enqueues_and_succeeds:
  "snd (Send p out) = None
   \<and> pending (fst (Send p out)) = pending p @ [out]
   \<and> last (pending (fst (Send p out))) = out
   \<and> length (pending (fst (Send p out))) = length (pending p) + 1"
  by (simp add: Send_fields)

text \<open>
  Claim C6. \<open>Send a\<close> followed by \<open>Send b\<close> on a peer with pending queue \<open>q\<close> leaves the queue
  \<open>q @ [a, b]\<close>; any sequence of calls appends its messages in call order, and the
  messages queued before stay where they were.
\<close>

theorem Send_fifo:
  "pending (fst (Send (fst (Send p a)) b)) = pending p @ [a, b]
   \<and> pending (send_all p ms) = pending p @ ms
   \<and> take (length (pending p)) (pending (send_all p ms)) = pending p"
  by (simp add: Send_fields send_all_pending)



text \<open>
  Claim C9. The peer that \<open>NewTCPPeer\<close> returns has a nil public key, for every connection,
  and \<open>GetPublicKey\<close> returns nil on it; it still does after any number of \<open>Send\<close> and
  \<open>notifyPending\<close> calls, none of which binds a key.
\<close>

theorem NewTCPPeer_unauthenticated:
  "publicKey (NewTCPPeer c) = None
   \<and> GetPublicKey (NewTCPPeer c) = None
   \<and> GetPublicKey (send_all (NewTCPPeer c) ms) = None
   \<and> GetPublicKey ((notifyPending ^^ n) (NewTCPPeer c)) = None"
proof -
  have "publicKey ((notifyPending ^^ n) q) = publicKey q" for q :: "'a TCPPeer"
    by (induction n) (simp_all add: notifyPending_fields)
  then show ?thesis
    by (simp add: GetPublicKey_def send_all_publicKey NewTCPPeer_fields)
qed

end
